theory Spec2Isabelle
  imports Complex_Main "HOL-Library.AList" "HOL-Library.Stream"
begin

section \<open>Supply-chain dashboards: derived metrics, filters and grouped summaries\<close>

text \<open>
  The two dashboards of the repository, \<^verbatim>\<open>enhanced_supply_chain_dashboard.py\<close> and
  \<^verbatim>\<open>interactive_dashboard_enhanced.py\<close>, load a CSV file into a pandas DataFrame, add
  derived columns to a copy of it, filter it and summarise it with DuckDB queries.
  This theory embeds the derivation of the columns (\<open>calculate_derived_metrics\<close>,
  \<open>calculate_advanced_metrics\<close>), the sidebar filters (\<open>apply_filters\<close>), and the
  summaries (\<open>get_performance_metrics\<close> and the grouped queries).

  Numbers. A float64 cell is a value of \<open>fval\<close>: a real number, an infinity or NaN.
  The special values and the comparisons follow IEEE 754 as numpy applies it (a division
  by zero is an infinity or NaN and raises nothing; NaN compares false). Rounding, overflow
  and the sign of zero are not represented: a finite result is the exact real result.
\<close>

subsection \<open>float64 cells\<close>

datatype fval = NaN | NInf | Fin real | PInf

fun is_nan :: "fval \<Rightarrow> bool" where
  "is_nan NaN = True"
| "is_nan _ = False"

fun is_fin :: "fval \<Rightarrow> bool" where
  "is_fin (Fin _) = True"
| "is_fin _ = False"

text \<open>\<open>flt a b\<close> is \<open>a < b\<close>, \<open>fle a b\<close> is \<open>a <= b\<close>; both are false when an operand is NaN.\<close>

fun flt :: "fval \<Rightarrow> fval \<Rightarrow> bool" where
  "flt NaN _ = False"
| "flt _ NaN = False"
| "flt NInf NInf = False"
| "flt NInf _ = True"
| "flt (Fin a) (Fin b) = (a < b)"
| "flt (Fin _) PInf = True"
| "flt (Fin _) NInf = False"
| "flt PInf _ = False"

fun fle :: "fval \<Rightarrow> fval \<Rightarrow> bool" where
  "fle NaN _ = False"
| "fle _ NaN = False"
| "fle NInf _ = True"
| "fle (Fin a) (Fin b) = (a \<le> b)"
| "fle (Fin _) PInf = True"
| "fle (Fin _) NInf = False"
| "fle PInf PInf = True"
| "fle PInf _ = False"

fun fneg :: "fval \<Rightarrow> fval" where
  "fneg NaN = NaN"
| "fneg NInf = PInf"
| "fneg (Fin a) = Fin (- a)"
| "fneg PInf = NInf"

fun fadd :: "fval \<Rightarrow> fval \<Rightarrow> fval" where
  "fadd NaN _ = NaN"
| "fadd _ NaN = NaN"
| "fadd (Fin a) (Fin b) = Fin (a + b)"
| "fadd PInf NInf = NaN"
| "fadd NInf PInf = NaN"
| "fadd PInf _ = PInf"
| "fadd _ PInf = PInf"
| "fadd NInf _ = NInf"
| "fadd _ NInf = NInf"

definition fsub :: "fval \<Rightarrow> fval \<Rightarrow> fval" where
  "fsub a b = fadd a (fneg b)"

fun fmul :: "fval \<Rightarrow> fval \<Rightarrow> fval" where
  "fmul NaN _ = NaN"
| "fmul _ NaN = NaN"
| "fmul (Fin a) (Fin b) = Fin (a * b)"
| "fmul PInf y = (if flt (Fin 0) y then PInf else if flt y (Fin 0) then NInf else NaN)"
| "fmul NInf y = (if flt (Fin 0) y then NInf else if flt y (Fin 0) then PInf else NaN)"
| "fmul x PInf = (if flt (Fin 0) x then PInf else if flt x (Fin 0) then NInf else NaN)"
| "fmul x NInf = (if flt (Fin 0) x then NInf else if flt x (Fin 0) then PInf else NaN)"

text \<open>
  Division of float64 Series: a zero divisor raises nothing. A non-zero number over zero
  is an infinity of its sign, zero over zero is NaN.
\<close>

fun fdiv :: "fval \<Rightarrow> fval \<Rightarrow> fval" where
  "fdiv NaN _ = NaN"
| "fdiv _ NaN = NaN"
| "fdiv (Fin a) (Fin b) =
     (if b \<noteq> 0 then Fin (a / b)
      else if 0 < a then PInf else if a < 0 then NInf else NaN)"
| "fdiv (Fin _) _ = Fin 0"
| "fdiv PInf (Fin b) = (if 0 \<le> b then PInf else NInf)"
| "fdiv NInf (Fin b) = (if 0 \<le> b then NInf else PInf)"
| "fdiv _ _ = NaN"

text \<open>\<open>Series.max()\<close>: the greatest cell that is not NaN; NaN when there is none.\<close>

definition fmax2 :: "fval \<Rightarrow> fval \<Rightarrow> fval" where
  "fmax2 a b = (if flt a b then b else a)"

definition series_max :: "fval list \<Rightarrow> fval" where
  "series_max xs =
     (case filter (\<lambda>x. \<not> is_nan x) xs of [] \<Rightarrow> NaN | y # ys \<Rightarrow> foldl fmax2 y ys)"

subsection \<open>DataFrames\<close>

text \<open>
  A column is numeric (float64 cells), text (object cells holding strings) or categorical
  (a category name, or no category: pandas shows NaN there). A DataFrame has its row
  labels, in row order, and its columns by name, in column order; every column has one
  cell per row label (\<open>wf_frame\<close>).
\<close>

datatype column = NumCol "fval list" | StrCol "string list" | CatCol "string option list"

datatype cell = NumCell fval | StrCell string | CatCell "string option"

record dataframe =
  index :: "nat list"
  columns :: "(string \<times> column) list"

fun col_len :: "column \<Rightarrow> nat" where
  "col_len (NumCol xs) = length xs"
| "col_len (StrCol xs) = length xs"
| "col_len (CatCol xs) = length xs"

definition nrows :: "dataframe \<Rightarrow> nat" where
  "nrows df = length (index df)"

definition wf_frame :: "dataframe \<Rightarrow> bool" where
  "wf_frame df = list_all (\<lambda>kc. col_len (snd kc) = nrows df) (columns df)"

text \<open>
  The exceptions of the embedded code: \<open>KeyError\<close> from \<open>df[name]\<close> on a missing column,
  \<open>TypeError\<close> from arithmetic or a comparison on cells that are not numbers,
  \<open>ValueError\<close> and \<open>OverflowError\<close> from \<open>int(x)\<close> on NaN and on an infinity.
  \<open>SchemaError\<close> is the error type the specification names; no path of the source
  raises it, and no definition below returns it.
\<close>

datatype error = KeyError string | TypeError | ValueError | OverflowError | SchemaError

definition bind_r :: "error + 'a \<Rightarrow> ('a \<Rightarrow> error + 'b) \<Rightarrow> error + 'b" where
  "bind_r m f = (case m of Inl e \<Rightarrow> Inl e | Inr x \<Rightarrow> f x)"

definition getitem :: "dataframe \<Rightarrow> string \<Rightarrow> error + column" where
  "getitem df name =
     (case map_of (columns df) name of None \<Rightarrow> Inl (KeyError name) | Some c \<Rightarrow> Inr c)"

text \<open>\<open>df[name] = col\<close>: replaces the column of that name in place, or appends a new one.\<close>

definition setitem :: "dataframe \<Rightarrow> string \<Rightarrow> column \<Rightarrow> dataframe" where
  "setitem df name col = df\<lparr>columns := AList.update name col (columns df)\<rparr>"

text \<open>
  Element-wise arithmetic of two Series of one frame, of a Series and a scalar, and
  \<open>Series.max()\<close>. Cells of a text or categorical column are not numbers: the model raises
  \<open>TypeError\<close> on them (pandas repeats a string that is multiplied by an integer; no
  statement below depends on that case).
\<close>

definition arith2 :: "(fval \<Rightarrow> fval \<Rightarrow> fval) \<Rightarrow> column \<Rightarrow> column \<Rightarrow> error + fval list" where
  "arith2 f c1 c2 =
     (case c1 of
        NumCol xs \<Rightarrow> (case c2 of NumCol ys \<Rightarrow> Inr (map2 f xs ys) | _ \<Rightarrow> Inl TypeError)
      | _ \<Rightarrow> Inl TypeError)"

definition numeric :: "column \<Rightarrow> error + fval list" where
  "numeric c = (case c of NumCol xs \<Rightarrow> Inr xs | _ \<Rightarrow> Inl TypeError)"

text \<open>\<open>np.where(cond, xs, 0)\<close>.\<close>

definition np_where0 :: "bool list \<Rightarrow> fval list \<Rightarrow> fval list" where
  "np_where0 cond xs = map2 (\<lambda>c x. if c then x else Fin 0) cond xs"

text \<open>
  \<open>pd.cut(x, bins, labels)\<close> with the defaults \<open>right=True, include_lowest=False\<close>: the
  i-th label is given to the cells in the interval \<open>(bins[i], bins[i+1]]\<close>, open on the
  left and closed on the right; a cell in no interval, or NaN, gets no category.
\<close>

fun pd_cut :: "fval list \<Rightarrow> string list \<Rightarrow> fval \<Rightarrow> string option" where
  "pd_cut (lo # hi # bins) (l # labels) x =
     (if flt lo x \<and> fle x hi then Some l else pd_cut (hi # bins) labels x)"
| "pd_cut _ _ _ = None"

definition risk_bins :: "fval list" where
  "risk_bins = [Fin 0, Fin 1, Fin 3, Fin 5, PInf]"

definition risk_labels :: "string list" where
  "risk_labels = [''Low'', ''Medium'', ''High'', ''Critical'']"

definition risk_level :: "fval \<Rightarrow> string option" where
  "risk_level x = pd_cut risk_bins risk_labels x"

subsection \<open>The derived metrics of enhanced_supply_chain_dashboard.py\<close>

text \<open>
  The statements of \<open>calculate_derived_metrics\<close> after \<open>enhanced_df = df.copy()\<close>, on the
  frame \<open>enhanced_df\<close> refers to. Each statement evaluates its right-hand side left to
  right on the frame as the statements before left it.
\<close>

definition set_profit_margin :: "dataframe \<Rightarrow> error + dataframe" where
  "set_profit_margin df =
     bind_r (getitem df ''Revenue generated'') (\<lambda>revenue.
     bind_r (getitem df ''Manufacturing costs'') (\<lambda>cost.
     bind_r (arith2 fsub revenue cost) (\<lambda>v.
     Inr (setitem df ''Profit_Margin'' (NumCol v)))))"

definition set_total_shipping_cost :: "dataframe \<Rightarrow> error + dataframe" where
  "set_total_shipping_cost df =
     bind_r (getitem df ''Number of products sold'') (\<lambda>sold.
     bind_r (getitem df ''Shipping costs'') (\<lambda>ship.
     bind_r (arith2 fmul sold ship) (\<lambda>v.
     Inr (setitem df ''Total_Shipping_Cost'' (NumCol v)))))"

definition set_efficiency_ratio_plain :: "dataframe \<Rightarrow> error + dataframe" where
  "set_efficiency_ratio_plain df =
     bind_r (getitem df ''Revenue generated'') (\<lambda>revenue.
     bind_r (getitem df ''Manufacturing costs'') (\<lambda>cost.
     bind_r (arith2 fdiv revenue cost) (\<lambda>v.
     Inr (setitem df ''Efficiency_Ratio'' (NumCol v)))))"

definition set_inventory_turnover_plain :: "dataframe \<Rightarrow> error + dataframe" where
  "set_inventory_turnover_plain df =
     bind_r (getitem df ''Number of products sold'') (\<lambda>sold.
     bind_r (getitem df ''Stock levels'') (\<lambda>stock.
     bind_r (arith2 fdiv sold stock) (\<lambda>v.
     Inr (setitem df ''Inventory_Turnover'' (NumCol v)))))"

definition derived_metrics_body :: "dataframe \<Rightarrow> error + dataframe" where
  "derived_metrics_body df =
     bind_r (set_profit_margin df) (\<lambda>df1.
     bind_r (set_total_shipping_cost df1) (\<lambda>df2.
     bind_r (set_efficiency_ratio_plain df2) (\<lambda>df3.
     set_inventory_turnover_plain df3)))"

subsection \<open>Objects\<close>

text \<open>
  DataFrames are mutable objects held by reference. A store gives the frame of every
  reference and the next reference to allocate; the references below \<open>next_ref\<close> are the
  live ones. \<open>df.copy()\<close> allocates a new object with the cells of \<open>df\<close>.
\<close>

record store =
  objs :: "nat \<Rightarrow> dataframe"
  next_ref :: nat

definition copy :: "store \<Rightarrow> nat \<Rightarrow> nat \<times> store" where
  "copy h r = (next_ref h, h\<lparr>objs := (objs h)(next_ref h := objs h r), next_ref := Suc (next_ref h)\<rparr>)"

definition store_frame :: "store \<Rightarrow> nat \<Rightarrow> dataframe \<Rightarrow> store" where
  "store_frame h r df = h\<lparr>objs := (objs h)(r := df)\<rparr>"

text \<open>
  \<open>calculate_derived_metrics(df)\<close>: copies \<open>df\<close>, runs the statements on the copy and
  returns the copy's reference. When a statement raises, the exception leaves the
  function and the copy is unreachable. Streamlit's \<open>@st.cache_data\<close> decorator, which
  replays a stored result for an argument it has seen before, is not represented: the
  definitions are what a call that runs the function body does.
\<close>

definition calculate_derived_metrics :: "store \<Rightarrow> nat \<Rightarrow> error + (nat \<times> store)" where
  "calculate_derived_metrics h df =
     (case copy h df of (enhanced_df, h1) \<Rightarrow>
        bind_r (derived_metrics_body (objs h1 enhanced_df)) (\<lambda>d.
        Inr (enhanced_df, store_frame h1 enhanced_df d)))"

subsection \<open>The derived metrics of interactive_dashboard_enhanced.py\<close>

text \<open>
  \<open>calculate_advanced_metrics\<close> starts with the same two statements (\<open>Profit_Margin\<close>,
  \<open>Total_Shipping_Cost\<close>) and guards the two ratios with \<open>np.where(denominator > 0, ..., 0)\<close>.
\<close>

definition gt0 :: "fval list \<Rightarrow> bool list" where
  "gt0 xs = map (\<lambda>x. flt (Fin 0) x) xs"

definition set_efficiency_ratio :: "dataframe \<Rightarrow> error + dataframe" where
  "set_efficiency_ratio df =
     bind_r (getitem df ''Manufacturing costs'') (\<lambda>c.
     bind_r (numeric c) (\<lambda>cs.
     bind_r (getitem df ''Revenue generated'') (\<lambda>revenue.
     bind_r (getitem df ''Manufacturing costs'') (\<lambda>cost.
     bind_r (arith2 fdiv revenue cost) (\<lambda>q.
     Inr (setitem df ''Efficiency_Ratio'' (NumCol (np_where0 (gt0 cs) q))))))))"

definition set_inventory_turnover :: "dataframe \<Rightarrow> error + dataframe" where
  "set_inventory_turnover df =
     bind_r (getitem df ''Stock levels'') (\<lambda>c.
     bind_r (numeric c) (\<lambda>cs.
     bind_r (getitem df ''Number of products sold'') (\<lambda>sold.
     bind_r (getitem df ''Stock levels'') (\<lambda>stock.
     bind_r (arith2 fdiv sold stock) (\<lambda>q.
     Inr (setitem df ''Inventory_Turnover'' (NumCol (np_where0 (gt0 cs) q))))))))"

text \<open>
  \<open>Performance_Score\<close>. \<open>over_max c c'\<close> is \<open>c / c'.max()\<close>; the three weighted terms are
  \<open>(rev / rev.max()) * 0.4\<close>, \<open>(1 - lead / lead.max()) * 0.3\<close> and
  \<open>(1 - defect / defect.max()) * 0.3\<close>, their sum is multiplied by 100. No term is
  guarded.
\<close>

definition over_max :: "column \<Rightarrow> column \<Rightarrow> error + fval list" where
  "over_max c c' =
     bind_r (numeric c') (\<lambda>ys.
     bind_r (numeric c) (\<lambda>xs.
     Inr (map (\<lambda>x. fdiv x (series_max ys)) xs)))"

definition revenue_term :: "fval list \<Rightarrow> fval list" where
  "revenue_term q = map (\<lambda>x. fmul x (Fin (4 / 10))) q"

definition penalty_term :: "fval list \<Rightarrow> fval list" where
  "penalty_term q = map (\<lambda>x. fmul (fsub (Fin 1) x) (Fin (3 / 10))) q"

definition score_sum :: "fval list \<Rightarrow> fval list \<Rightarrow> fval list \<Rightarrow> fval list" where
  "score_sum t1 t2 t3 = map (\<lambda>a. fmul a (Fin 100)) (map2 fadd (map2 fadd t1 t2) t3)"

definition set_performance_score :: "dataframe \<Rightarrow> error + dataframe" where
  "set_performance_score df =
     bind_r (getitem df ''Revenue generated'') (\<lambda>revenue.
     bind_r (getitem df ''Revenue generated'') (\<lambda>revenue'.
     bind_r (over_max revenue revenue') (\<lambda>q1.
     bind_r (getitem df ''Lead times'') (\<lambda>lead.
     bind_r (getitem df ''Lead times'') (\<lambda>lead'.
     bind_r (over_max lead lead') (\<lambda>q2.
     bind_r (getitem df ''Defect rates'') (\<lambda>defect.
     bind_r (getitem df ''Defect rates'') (\<lambda>defect'.
     bind_r (over_max defect defect') (\<lambda>q3.
     Inr (setitem df ''Performance_Score''
            (NumCol (score_sum (revenue_term q1) (penalty_term q2) (penalty_term q3)))))))))))))"

definition set_risk_level :: "dataframe \<Rightarrow> error + dataframe" where
  "set_risk_level df =
     bind_r (getitem df ''Defect rates'') (\<lambda>defect.
     bind_r (numeric defect) (\<lambda>xs.
     Inr (setitem df ''Risk_Level'' (CatCol (map risk_level xs)))))"

text \<open>
  The trend columns are drawn from numpy's global generator, which the source never
  seeds. The generator is the stream of the uniform variates of \<open>[0, 1)\<close> it will deliver:
  \<open>np.random.choice(a, size=n)\<close> and \<open>np.random.uniform(lo, hi, size=n)\<close> each consume \<open>n\<close>
  of them.
\<close>

definition random_choice :: "string list \<Rightarrow> real \<Rightarrow> string" where
  "random_choice a u = a ! min (length a - 1) (nat \<lfloor>u * real (length a)\<rfloor>)"

definition random_uniform :: "real \<Rightarrow> real \<Rightarrow> real \<Rightarrow> fval" where
  "random_uniform lo hi u = Fin (lo + (hi - lo) * u)"

definition set_trend :: "dataframe \<Rightarrow> real stream \<Rightarrow> dataframe \<times> real stream" where
  "set_trend df g =
     (let n = nrows df;
          df1 = setitem df ''Trend_Direction''
                  (StrCol (map (random_choice [''Up'', ''Down'', ''Stable'']) (stake n g)));
          g1 = sdrop n g;
          df2 = setitem df1 ''Trend_Strength''
                  (NumCol (map (random_uniform (1 / 10) 1) (stake (nrows df1) g1)));
          g2 = sdrop (nrows df1) g1
      in (df2, g2))"

definition advanced_metrics_body :: "dataframe \<Rightarrow> real stream \<Rightarrow> error + (dataframe \<times> real stream)" where
  "advanced_metrics_body df g =
     bind_r (set_profit_margin df) (\<lambda>df1.
     bind_r (set_total_shipping_cost df1) (\<lambda>df2.
     bind_r (set_efficiency_ratio df2) (\<lambda>df3.
     bind_r (set_inventory_turnover df3) (\<lambda>df4.
     bind_r (set_performance_score df4) (\<lambda>df5.
     bind_r (set_risk_level df5) (\<lambda>df6.
     Inr (set_trend df6 g)))))))"

definition calculate_advanced_metrics ::
  "store \<Rightarrow> nat \<Rightarrow> real stream \<Rightarrow> error + (nat \<times> store \<times> real stream)" where
  "calculate_advanced_metrics h df g =
     (case copy h df of (enhanced_df, h1) \<Rightarrow>
        bind_r (advanced_metrics_body (objs h1 enhanced_df) g) (\<lambda>dg.
        Inr (enhanced_df, store_frame h1 enhanced_df (fst dg), snd dg)))"

subsection \<open>The sidebar filters\<close>

text \<open>
  The attributes of \<open>st.session_state\<close> that \<open>apply_filters\<close> reads. The two selections
  are set when the module is loaded; the other three exist once the sidebar has run
  (\<open>hasattr\<close> is \<open>Some\<close>).
\<close>

record session_state =
  selected_product_type :: string
  selected_location :: string
  revenue_range :: "(fval \<times> fval) option"
  lead_time_max :: "int option"
  risk_levels :: "string list option"

text \<open>\<open>df[mask]\<close>: the rows whose mask cell is true, with their labels.\<close>

definition keep :: "bool list \<Rightarrow> 'a list \<Rightarrow> 'a list" where
  "keep bs xs = map snd (filter fst (zip bs xs))"

fun col_keep :: "bool list \<Rightarrow> column \<Rightarrow> column" where
  "col_keep bs (NumCol xs) = NumCol (keep bs xs)"
| "col_keep bs (StrCol xs) = StrCol (keep bs xs)"
| "col_keep bs (CatCol xs) = CatCol (keep bs xs)"

definition select_rows :: "bool list \<Rightarrow> dataframe \<Rightarrow> dataframe" where
  "select_rows bs df =
     \<lparr>index = keep bs (index df),
      columns = map (\<lambda>kc. (fst kc, col_keep bs (snd kc))) (columns df)\<rparr>"

text \<open>
  \<open>series == value\<close> for a string value, and \<open>series.isin(values)\<close> for a list of strings:
  a number equals no string, and a cell without category is in no list.
\<close>

fun eq_mask :: "column \<Rightarrow> string \<Rightarrow> bool list" where
  "eq_mask (NumCol xs) v = map (\<lambda>x. False) xs"
| "eq_mask (StrCol xs) v = map (\<lambda>x. x = v) xs"
| "eq_mask (CatCol xs) v = map (\<lambda>x. x = Some v) xs"

fun isin :: "column \<Rightarrow> string list \<Rightarrow> bool list" where
  "isin (NumCol xs) vs = map (\<lambda>x. False) xs"
| "isin (StrCol xs) vs = map (\<lambda>x. x \<in> set vs) xs"
| "isin (CatCol xs) vs = map (\<lambda>x. case x of None \<Rightarrow> False | Some l \<Rightarrow> l \<in> set vs) xs"

definition filter_product_type :: "session_state \<Rightarrow> dataframe \<Rightarrow> error + dataframe" where
  "filter_product_type s df =
     (if selected_product_type s \<noteq> ''All''
      then bind_r (getitem df ''Product type'') (\<lambda>c.
           Inr (select_rows (eq_mask c (selected_product_type s)) df))
      else Inr df)"

definition filter_location :: "session_state \<Rightarrow> dataframe \<Rightarrow> error + dataframe" where
  "filter_location s df =
     (if selected_location s \<noteq> ''All''
      then bind_r (getitem df ''Location'') (\<lambda>c.
           Inr (select_rows (eq_mask c (selected_location s)) df))
      else Inr df)"

definition filter_revenue_range :: "session_state \<Rightarrow> dataframe \<Rightarrow> error + dataframe" where
  "filter_revenue_range s df =
     (case revenue_range s of
        None \<Rightarrow> Inr df
      | Some (min_rev, max_rev) \<Rightarrow>
          bind_r (getitem df ''Revenue generated'') (\<lambda>c1.
          bind_r (numeric c1) (\<lambda>xs.
          bind_r (getitem df ''Revenue generated'') (\<lambda>c2.
          bind_r (numeric c2) (\<lambda>ys.
          Inr (select_rows (map2 (\<lambda>x y. fle min_rev x \<and> fle y max_rev) xs ys) df))))))"

definition filter_lead_time :: "session_state \<Rightarrow> dataframe \<Rightarrow> error + dataframe" where
  "filter_lead_time s df =
     (case lead_time_max s of
        None \<Rightarrow> Inr df
      | Some m \<Rightarrow>
          bind_r (getitem df ''Lead times'') (\<lambda>c.
          bind_r (numeric c) (\<lambda>xs.
          Inr (select_rows (map (\<lambda>x. fle x (Fin (of_int m))) xs) df))))"

definition filter_risk_level :: "session_state \<Rightarrow> dataframe \<Rightarrow> error + dataframe" where
  "filter_risk_level s df =
     (case risk_levels s of
        None \<Rightarrow> Inr df
      | Some levels \<Rightarrow>
          if levels \<noteq> []
          then bind_r (getitem df ''Risk_Level'') (\<lambda>c.
               Inr (select_rows (isin c levels) df))
          else Inr df)"

text \<open>
  \<open>apply_filters(data)\<close> works on a copy of \<open>data\<close> and every \<open>df[mask]\<close> builds a new
  frame, so the function is a function of the frame \<open>data\<close> refers to and of the session
  state.
\<close>

definition apply_filters :: "session_state \<Rightarrow> dataframe \<Rightarrow> error + dataframe" where
  "apply_filters s data =
     bind_r (filter_product_type s data) (\<lambda>f1.
     bind_r (filter_location s f1) (\<lambda>f2.
     bind_r (filter_revenue_range s f2) (\<lambda>f3.
     bind_r (filter_lead_time s f3) (\<lambda>f4.
     filter_risk_level s f4))))"

subsection \<open>EnhancedDataAnalyzer.get_performance_metrics\<close>








subsection \<open>The grouped queries\<close>

text \<open>
  Both analyzers register their frame with DuckDB as \<open>supply_data\<close> and run queries of
  one shape:
  \<^verbatim>\<open>SELECT key, red AS alias, ... FROM supply_data GROUP BY key ORDER BY alias ASC|DESC\<close>.
  A query is its grouping column, its reductions with their aliases in the order the
  \<open>SELECT\<close> declares them, and its \<open>ORDER BY\<close> clause.

  The engine is not part of the repository. The model gives it the relational meaning
  of \<open>GROUP BY\<close>, \<open>SUM\<close>, \<open>AVG\<close>, \<open>COUNT(*)\<close> and \<open>ORDER BY\<close> on finite numbers. A
  query that reduces a column holding NaN or an infinity is \<open>OutsideModel\<close>: what the
  engine makes of such cells is not modelled. Rows with equal sort keys come out in an
  order the engine chooses; the model keeps them in the order the groups first appear,
  and no statement below depends on it. A column the query names and the table lacks,
  or \<open>SUM\<close>/\<open>AVG\<close> of a column that is not numeric, is the engine's binder error.
\<close>

datatype reduction = SumOf string | AvgOf string | CountStar

record query =
  group_by :: string
  selected :: "(string \<times> reduction) list"
  order_by :: string
  descending :: bool

datatype 'a sql_result = Result 'a | BinderException string | OutsideModel

definition sql_bind :: "'a sql_result \<Rightarrow> ('a \<Rightarrow> 'b sql_result) \<Rightarrow> 'b sql_result" where
  "sql_bind m f =
     (case m of Result x \<Rightarrow> f x | BinderException c \<Rightarrow> BinderException c
      | OutsideModel \<Rightarrow> OutsideModel)"

fun cells :: "column \<Rightarrow> cell list" where
  "cells (NumCol xs) = map NumCell xs"
| "cells (StrCol xs) = map StrCell xs"
| "cells (CatCol xs) = map CatCell xs"

fun the_fin :: "fval \<Rightarrow> real" where
  "the_fin (Fin x) = x"
| "the_fin _ = 0"

definition key_column :: "dataframe \<Rightarrow> string \<Rightarrow> cell list sql_result" where
  "key_column df name =
     (case map_of (columns df) name of
        None \<Rightarrow> BinderException name
      | Some c \<Rightarrow> Result (cells c))"

definition double_column :: "dataframe \<Rightarrow> string \<Rightarrow> real list sql_result" where
  "double_column df name =
     (case map_of (columns df) name of
        None \<Rightarrow> BinderException name
      | Some (NumCol xs) \<Rightarrow> if list_all is_fin xs then Result (map the_fin xs) else OutsideModel
      | Some _ \<Rightarrow> BinderException name)"

text \<open>The values of one group: the cells of the rows whose key is \<open>k\<close>.\<close>

definition group_values :: "cell list \<Rightarrow> cell \<Rightarrow> 'a list \<Rightarrow> 'a list" where
  "group_values keys k vs = map snd (filter (\<lambda>kv. fst kv = k) (zip keys vs))"

text \<open>
  One reduction: per group key, its value over the group. A group has at least one row,
  so the average divides by a positive count.
\<close>

fun reduce :: "dataframe \<Rightarrow> cell list \<Rightarrow> reduction \<Rightarrow> (cell \<Rightarrow> real) sql_result" where
  "reduce df keys (SumOf c) =
     sql_bind (double_column df c) (\<lambda>vs. Result (\<lambda>k. sum_list (group_values keys k vs)))"
| "reduce df keys (AvgOf c) =
     sql_bind (double_column df c) (\<lambda>vs.
       Result (\<lambda>k. sum_list (group_values keys k vs) / real (length (group_values keys k vs))))"
| "reduce df keys CountStar =
     Result (\<lambda>k. real (length (group_values keys k keys)))"

fun reduce_all ::
  "dataframe \<Rightarrow> cell list \<Rightarrow> (string \<times> reduction) list \<Rightarrow> (string \<times> (cell \<Rightarrow> real)) list sql_result" where
  "reduce_all df keys [] = Result []"
| "reduce_all df keys ((alias, r) # rs) =
     sql_bind (reduce df keys r) (\<lambda>f.
     sql_bind (reduce_all df keys rs) (\<lambda>fs. Result ((alias, f) # fs)))"

text \<open>
  An output row is a group key with the values of the reductions, by alias, in the
  order declared. \<open>ORDER BY alias\<close> sorts on the value of that alias, ascending or
  descending.
\<close>

type_synonym agg_row = "cell \<times> (string \<times> real) list"

definition value_of :: "string \<Rightarrow> agg_row \<Rightarrow> real" where
  "value_of alias row = (case map_of (snd row) alias of None \<Rightarrow> 0 | Some v \<Rightarrow> v)"

definition order_rows :: "string \<Rightarrow> bool \<Rightarrow> agg_row list \<Rightarrow> agg_row list" where
  "order_rows alias desc rows =
     (if desc then sort_key (\<lambda>r. - value_of alias r) rows
      else sort_key (\<lambda>r. value_of alias r) rows)"

definition first_seen :: "'a list \<Rightarrow> 'a list" where
  "first_seen xs = rev (remdups (rev xs))"

definition run_query :: "dataframe \<Rightarrow> query \<Rightarrow> agg_row list sql_result" where
  "run_query df q =
     sql_bind (key_column df (group_by q)) (\<lambda>keys.
     sql_bind (reduce_all df keys (selected q)) (\<lambda>fs.
     if order_by q \<in> set (map fst (selected q))
     then Result (order_rows (order_by q) (descending q)
                    (map (\<lambda>k. (k, map (\<lambda>af. (fst af, snd af k)) fs)) (first_seen keys)))
     else BinderException (order_by q)))"




text \<open>
  The queries of \<open>EnhancedDataAnalyzer.get_advanced_analytics\<close>
  (interactive_dashboard_enhanced.py).
\<close>

definition product_performance :: query where
  "product_performance =
     \<lparr>group_by = ''Product type'',
      selected = [(''total_revenue'', SumOf ''Revenue generated''),
                  (''avg_performance'', AvgOf ''Performance_Score''),
                  (''product_count'', CountStar),
                  (''avg_defect_rate'', AvgOf ''Defect rates'')],
      order_by = ''total_revenue'', descending = True\<rparr>"

definition location_efficiency :: query where
  "location_efficiency =
     \<lparr>group_by = ''Location'',
      selected = [(''total_revenue'', SumOf ''Revenue generated''),
                  (''avg_lead_time'', AvgOf ''Lead times''),
                  (''avg_efficiency'', AvgOf ''Efficiency_Ratio''),
                  (''total_costs'', SumOf ''Manufacturing costs'')],
      order_by = ''avg_efficiency'', descending = True\<rparr>"

definition supplier_risk :: query where
  "supplier_risk =
     \<lparr>group_by = ''Supplier name'',
      selected = [(''avg_defect_rate'', AvgOf ''Defect rates''),
                  (''total_costs'', SumOf ''Manufacturing costs''),
                  (''product_count'', CountStar),
                  (''avg_lead_time'', AvgOf ''Lead times'')],
      order_by = ''avg_defect_rate'', descending = True\<rparr>"

definition transportation_analysis :: query where
  "transportation_analysis =
     \<lparr>group_by = ''Transportation modes'',
      selected = [(''avg_shipping_cost'', AvgOf ''Shipping costs''),
                  (''avg_lead_time'', AvgOf ''Lead times''),
                  (''total_orders'', SumOf ''Order quantities''),
                  (''usage_count'', CountStar)],
      order_by = ''avg_shipping_cost'', descending = False\<rparr>"

definition get_advanced_analytics :: "dataframe \<Rightarrow> (string \<times> agg_row list) list sql_result" where
  "get_advanced_analytics df =
     sql_bind (run_query df product_performance) (\<lambda>a1.
     sql_bind (run_query df location_efficiency) (\<lambda>a2.
     sql_bind (run_query df supplier_risk) (\<lambda>a3.
     sql_bind (run_query df transportation_analysis) (\<lambda>a4.
     Result [(''product_performance'', a1), (''location_efficiency'', a2),
             (''supplier_risk'', a3), (''transportation_analysis'', a4)]))))"




subsection \<open>Auxiliary definitions for the statements below\<close>

text \<open>
  The score column as a function of the three columns it reads, and the frame the six
  deterministic statements of \<open>calculate_advanced_metrics\<close> build from a frame whose
  seven input columns are numeric (\<open>advanced_body_Inr\<close> below proves that this is what
  the statements compute).
\<close>

definition score :: "fval list \<Rightarrow> fval list \<Rightarrow> fval list \<Rightarrow> fval list" where
  "score revenue lead defect =
     score_sum (revenue_term (map (\<lambda>x. fdiv x (series_max revenue)) revenue))
               (penalty_term (map (\<lambda>x. fdiv x (series_max lead)) lead))
               (penalty_term (map (\<lambda>x. fdiv x (series_max defect)) defect))"

definition enriched ::
  "dataframe \<Rightarrow> fval list \<Rightarrow> fval list \<Rightarrow> fval list \<Rightarrow> fval list \<Rightarrow> fval list \<Rightarrow> fval list \<Rightarrow>
   fval list \<Rightarrow> dataframe" where
  "enriched df revenue cost sold ship stock lead defect =
     setitem (setitem (setitem (setitem (setitem (setitem df
       ''Profit_Margin'' (NumCol (map2 fsub revenue cost)))
       ''Total_Shipping_Cost'' (NumCol (map2 fmul sold ship)))
       ''Efficiency_Ratio'' (NumCol (np_where0 (gt0 cost) (map2 fdiv revenue cost))))
       ''Inventory_Turnover'' (NumCol (np_where0 (gt0 stock) (map2 fdiv sold stock))))
       ''Performance_Score'' (NumCol (score revenue lead defect)))
       ''Risk_Level'' (CatCol (map risk_level defect))"

text \<open>The names of the columns each function assigns, and of the columns it reads, in
  the order of their first use.\<close>

definition derived_names :: "string list" where
  "derived_names =
     [''Profit_Margin'', ''Total_Shipping_Cost'', ''Efficiency_Ratio'', ''Inventory_Turnover'']"

definition advanced_names :: "string list" where
  "advanced_names =
     [''Profit_Margin'', ''Total_Shipping_Cost'', ''Efficiency_Ratio'', ''Inventory_Turnover'',
      ''Performance_Score'', ''Risk_Level'', ''Trend_Direction'', ''Trend_Strength'']"

definition derived_reads :: "string list" where
  "derived_reads =
     [''Revenue generated'', ''Manufacturing costs'', ''Number of products sold'',
      ''Shipping costs'', ''Stock levels'']"

definition advanced_reads :: "string list" where
  "advanced_reads =
     [''Revenue generated'', ''Manufacturing costs'', ''Number of products sold'',
      ''Shipping costs'', ''Stock levels'', ''Lead times'', ''Defect rates'']"

text \<open>The columns of the dataset that hold the fields of the specification's Row, under
  the names the source uses for them.\<close>

definition row_fields :: "string list" where
  "row_fields =
     [''Revenue generated'', ''Manufacturing costs'', ''Number of products sold'',
      ''Stock levels'', ''Lead times'', ''Defect rates'', ''Price'', ''Product type'',
      ''Location'', ''Supplier name'', ''Transportation modes'', ''Order quantities'',
      ''Shipping costs'', ''Availability'', ''Inspection results'']"

definition absent :: "dataframe \<Rightarrow> string \<Rightarrow> bool" where
  "absent df name = (map_of (columns df) name = None)"

fun numeric_if_present :: "dataframe \<Rightarrow> string list \<Rightarrow> bool" where
  "numeric_if_present df [] = True"
| "numeric_if_present df (name # names) =
     ((case map_of (columns df) name of
         None \<Rightarrow> True | Some (NumCol xs) \<Rightarrow> True | Some _ \<Rightarrow> False)
      \<and> numeric_if_present df names)"



text \<open>The cells of a column paired with the labels of their rows.\<close>

definition labelled :: "dataframe \<Rightarrow> string \<Rightarrow> (nat \<times> cell) list" where
  "labelled df name =
     (case map_of (columns df) name of None \<Rightarrow> [] | Some c \<Rightarrow> zip (index df) (cells c))"



text \<open>A column of the frame a function returned, when it returned one.\<close>

definition column_of :: "string \<Rightarrow> error + dataframe \<Rightarrow> column option" where
  "column_of name r = (case r of Inl e \<Rightarrow> None | Inr d \<Rightarrow> map_of (columns d) name)"

subsection \<open>Example batches\<close>

definition sample_batch :: dataframe where
  "sample_batch =
     \<lparr>index = [0, 1],
      columns =
        [(''Product type'', StrCol [''skincare'', ''haircare'']),
         (''Location'', StrCol [''Mumbai'', ''Delhi'']),
         (''Supplier name'', StrCol [''Supplier 1'', ''Supplier 2'']),
         (''Transportation modes'', StrCol [''Road'', ''Air'']),
         (''Revenue generated'', NumCol [Fin 100, Fin 200]),
         (''Manufacturing costs'', NumCol [Fin 0, Fin 50]),
         (''Number of products sold'', NumCol [Fin 5, Fin 8]),
         (''Shipping costs'', NumCol [Fin 2, Fin 3]),
         (''Stock levels'', NumCol [Fin 0, Fin 4]),
         (''Lead times'', NumCol [Fin 10, Fin 20]),
         (''Defect rates'', NumCol [Fin 0, Fin 1]),
         (''Order quantities'', NumCol [Fin 7, Fin 9]),
         (''Availability'', NumCol [Fin 30, Fin 40])]\<rparr>"

definition sample_store :: store where
  "sample_store = \<lparr>objs = (\<lambda>r. sample_batch), next_ref = 1\<rparr>"

definition sample_state :: session_state where
  "sample_state =
     \<lparr>selected_product_type = ''All'', selected_location = ''All'',
      revenue_range = None, lead_time_max = None,
      risk_levels = Some [''Low'', ''Medium'', ''High'', ''Critical'']\<rparr>"

text \<open>What \<open>calculate_advanced_metrics\<close> makes of \<open>sample_batch\<close> when every variate
  the generator delivers is 0 (\<open>sample_batch_enriched\<close> below).\<close>

definition sample_enriched :: dataframe where
  "sample_enriched =
     \<lparr>index = [0, 1],
      columns =
        [(''Product type'', StrCol [''skincare'', ''haircare'']),
         (''Location'', StrCol [''Mumbai'', ''Delhi'']),
         (''Supplier name'', StrCol [''Supplier 1'', ''Supplier 2'']),
         (''Transportation modes'', StrCol [''Road'', ''Air'']),
         (''Revenue generated'', NumCol [Fin 100, Fin 200]),
         (''Manufacturing costs'', NumCol [Fin 0, Fin 50]),
         (''Number of products sold'', NumCol [Fin 5, Fin 8]),
         (''Shipping costs'', NumCol [Fin 2, Fin 3]),
         (''Stock levels'', NumCol [Fin 0, Fin 4]),
         (''Lead times'', NumCol [Fin 10, Fin 20]),
         (''Defect rates'', NumCol [Fin 0, Fin 1]),
         (''Order quantities'', NumCol [Fin 7, Fin 9]),
         (''Availability'', NumCol [Fin 30, Fin 40]),
         (''Profit_Margin'', NumCol [Fin 100, Fin 150]),
         (''Total_Shipping_Cost'', NumCol [Fin 10, Fin 24]),
         (''Efficiency_Ratio'', NumCol [Fin 0, Fin 4]),
         (''Inventory_Turnover'', NumCol [Fin 0, Fin 2]),
         (''Performance_Score'', NumCol [Fin 65, Fin 40]),
         (''Risk_Level'', CatCol [None, Some ''Low'']),
         (''Trend_Direction'', StrCol [''Up'', ''Up'']),
         (''Trend_Strength'', NumCol [Fin (1 / 10), Fin (1 / 10)])]\<rparr>"

text \<open>Rows with defect rates on the bucket boundaries 1, 3 and 5.\<close>

definition boundary_batch :: dataframe where
  "boundary_batch =
     \<lparr>index = [0, 1, 2],
      columns =
        [(''Revenue generated'', NumCol [Fin 100, Fin 200, Fin 300]),
         (''Manufacturing costs'', NumCol [Fin 10, Fin 20, Fin 30]),
         (''Number of products sold'', NumCol [Fin 5, Fin 8, Fin 9]),
         (''Shipping costs'', NumCol [Fin 2, Fin 3, Fin 4]),
         (''Stock levels'', NumCol [Fin 1, Fin 4, Fin 5]),
         (''Lead times'', NumCol [Fin 10, Fin 20, Fin 30]),
         (''Defect rates'', NumCol [Fin 1, Fin 3, Fin 5])]\<rparr>"

text \<open>A batch whose revenue is 0 in every row, and a row with manufacturing cost and
  stock level 0.\<close>

definition zero_revenue_batch :: dataframe where
  "zero_revenue_batch =
     \<lparr>index = [0, 1],
      columns =
        [(''Revenue generated'', NumCol [Fin 0, Fin 0]),
         (''Manufacturing costs'', NumCol [Fin 10, Fin 20]),
         (''Number of products sold'', NumCol [Fin 5, Fin 8]),
         (''Shipping costs'', NumCol [Fin 2, Fin 3]),
         (''Stock levels'', NumCol [Fin 1, Fin 4]),
         (''Lead times'', NumCol [Fin 10, Fin 20]),
         (''Defect rates'', NumCol [Fin 1, Fin 2])]\<rparr>"

definition zero_cost_batch :: dataframe where
  "zero_cost_batch =
     \<lparr>index = [0, 1],
      columns =
        [(''Revenue generated'', NumCol [Fin 100, Fin 0]),
         (''Manufacturing costs'', NumCol [Fin 0, Fin 0]),
         (''Number of products sold'', NumCol [Fin 5, Fin 0]),
         (''Shipping costs'', NumCol [Fin 2, Fin 3]),
         (''Stock levels'', NumCol [Fin 0, Fin 0])]\<rparr>"

text \<open>A batch without the column \<open>Revenue generated\<close>.\<close>

definition no_revenue_batch :: dataframe where
  "no_revenue_batch =
     \<lparr>index = [0],
      columns =
        [(''Manufacturing costs'', NumCol [Fin 10]),
         (''Number of products sold'', NumCol [Fin 5]),
         (''Shipping costs'', NumCol [Fin 2]),
         (''Stock levels'', NumCol [Fin 1]),
         (''Lead times'', NumCol [Fin 10]),
         (''Defect rates'', NumCol [Fin 1])]\<rparr>"

definition no_revenue_store :: store where
  "no_revenue_store = \<lparr>objs = (\<lambda>r. no_revenue_batch), next_ref = 1\<rparr>"


section \<open>Properties\<close>

subsection \<open>What each statement returns\<close>

lemma columns_setitem: "map_of (columns (setitem df k c)) k' = (if k' = k then Some c else map_of (columns df) k')"
  by (simp add: setitem_def update_conv')

lemma index_setitem: "index (setitem df k c) = index df"
  by (simp add: setitem_def)

lemma nrows_setitem: "nrows (setitem df k c) = nrows df"
  by (simp add: nrows_def index_setitem)

lemma getitem_Inr: "getitem df k = Inr c \<longleftrightarrow> map_of (columns df) k = Some c"
  by (simp add: getitem_def split: option.splits)

lemma bind_r_Inr: "bind_r m f = Inr y \<longleftrightarrow> (\<exists>x. m = Inr x \<and> f x = Inr y)"
  by (cases m) (simp_all add: bind_r_def)

lemma arith2_Inr: "arith2 f c1 c2 = Inr v \<longleftrightarrow> (\<exists>xs ys. c1 = NumCol xs \<and> c2 = NumCol ys \<and> v = map2 f xs ys)"
  by (auto simp: arith2_def split: column.splits)

lemma numeric_Inr: "numeric c = Inr xs \<longleftrightarrow> c = NumCol xs"
  by (auto simp: numeric_def split: column.splits)

lemma over_max_Inr: "over_max c c' = Inr q \<longleftrightarrow> (\<exists>xs ys. c = NumCol xs \<and> c' = NumCol ys \<and> q = map (\<lambda>x. fdiv x (series_max ys)) xs)"
  by (auto simp: over_max_def bind_r_Inr numeric_Inr)

lemma set_profit_margin_Inr:
  "set_profit_margin df = Inr d \<longleftrightarrow>
     (\<exists>r c. map_of (columns df) ''Revenue generated'' = Some (NumCol r) \<and>
            map_of (columns df) ''Manufacturing costs'' = Some (NumCol c) \<and>
            d = setitem df ''Profit_Margin'' (NumCol (map2 fsub r c)))"
  unfolding set_profit_margin_def
  by (auto simp: bind_r_Inr arith2_Inr getitem_Inr)

lemma set_total_shipping_cost_Inr:
  "set_total_shipping_cost df = Inr d \<longleftrightarrow>
     (\<exists>r c. map_of (columns df) ''Number of products sold'' = Some (NumCol r) \<and>
            map_of (columns df) ''Shipping costs'' = Some (NumCol c) \<and>
            d = setitem df ''Total_Shipping_Cost'' (NumCol (map2 fmul r c)))"
  unfolding set_total_shipping_cost_def
  by (auto simp: bind_r_Inr arith2_Inr getitem_Inr)

lemma set_efficiency_ratio_plain_Inr:
  "set_efficiency_ratio_plain df = Inr d \<longleftrightarrow>
     (\<exists>r c. map_of (columns df) ''Revenue generated'' = Some (NumCol r) \<and>
            map_of (columns df) ''Manufacturing costs'' = Some (NumCol c) \<and>
            d = setitem df ''Efficiency_Ratio'' (NumCol (map2 fdiv r c)))"
  unfolding set_efficiency_ratio_plain_def
  by (auto simp: bind_r_Inr arith2_Inr getitem_Inr)

lemma set_inventory_turnover_plain_Inr:
  "set_inventory_turnover_plain df = Inr d \<longleftrightarrow>
     (\<exists>r c. map_of (columns df) ''Number of products sold'' = Some (NumCol r) \<and>
            map_of (columns df) ''Stock levels'' = Some (NumCol c) \<and>
            d = setitem df ''Inventory_Turnover'' (NumCol (map2 fdiv r c)))"
  unfolding set_inventory_turnover_plain_def
  by (auto simp: bind_r_Inr arith2_Inr getitem_Inr)

lemma set_efficiency_ratio_Inr:
  "set_efficiency_ratio df = Inr d \<longleftrightarrow>
     (\<exists>r c. map_of (columns df) ''Revenue generated'' = Some (NumCol r) \<and>
            map_of (columns df) ''Manufacturing costs'' = Some (NumCol c) \<and>
            d = setitem df ''Efficiency_Ratio'' (NumCol (np_where0 (gt0 c) (map2 fdiv r c))))"
  unfolding set_efficiency_ratio_def
  by (auto simp: bind_r_Inr arith2_Inr getitem_Inr numeric_Inr)

lemma set_inventory_turnover_Inr:
  "set_inventory_turnover df = Inr d \<longleftrightarrow>
     (\<exists>r c. map_of (columns df) ''Number of products sold'' = Some (NumCol r) \<and>
            map_of (columns df) ''Stock levels'' = Some (NumCol c) \<and>
            d = setitem df ''Inventory_Turnover'' (NumCol (np_where0 (gt0 c) (map2 fdiv r c))))"
  unfolding set_inventory_turnover_def
  by (auto simp: bind_r_Inr arith2_Inr getitem_Inr numeric_Inr)

lemma set_performance_score_Inr:
  "set_performance_score df = Inr d \<longleftrightarrow>
     (\<exists>r l x. map_of (columns df) ''Revenue generated'' = Some (NumCol r) \<and>
            map_of (columns df) ''Lead times'' = Some (NumCol l) \<and>
            map_of (columns df) ''Defect rates'' = Some (NumCol x) \<and>
            d = setitem df ''Performance_Score'' (NumCol (score r l x)))"
  unfolding set_performance_score_def score_def
  by (auto simp: bind_r_Inr over_max_Inr getitem_Inr)

lemma set_risk_level_Inr:
  "set_risk_level df = Inr d \<longleftrightarrow>
     (\<exists>x. map_of (columns df) ''Defect rates'' = Some (NumCol x) \<and>
            d = setitem df ''Risk_Level'' (CatCol (map risk_level x)))"
  unfolding set_risk_level_def
  by (auto simp: bind_r_Inr numeric_Inr getitem_Inr)

lemmas step_Inr = set_profit_margin_Inr set_total_shipping_cost_Inr set_efficiency_ratio_plain_Inr
  set_inventory_turnover_plain_Inr set_efficiency_ratio_Inr set_inventory_turnover_Inr
  set_performance_score_Inr set_risk_level_Inr

lemma advanced_body_Inr:
  "advanced_metrics_body df g = Inr dg \<longleftrightarrow>
   (\<exists>revenue cost sold ship stock lead defect.
     map_of (columns df) ''Revenue generated'' = Some (NumCol revenue) \<and>
     map_of (columns df) ''Manufacturing costs'' = Some (NumCol cost) \<and>
     map_of (columns df) ''Number of products sold'' = Some (NumCol sold) \<and>
     map_of (columns df) ''Shipping costs'' = Some (NumCol ship) \<and>
     map_of (columns df) ''Stock levels'' = Some (NumCol stock) \<and>
     map_of (columns df) ''Lead times'' = Some (NumCol lead) \<and>
     map_of (columns df) ''Defect rates'' = Some (NumCol defect) \<and>
     dg = set_trend (enriched df revenue cost sold ship stock lead defect) g)"
  unfolding advanced_metrics_body_def enriched_def
  by (auto simp: bind_r_Inr step_Inr columns_setitem)

lemma derived_body_Inr:
  "derived_metrics_body df = Inr d \<longleftrightarrow>
   (\<exists>revenue cost sold ship stock.
     map_of (columns df) ''Revenue generated'' = Some (NumCol revenue) \<and>
     map_of (columns df) ''Manufacturing costs'' = Some (NumCol cost) \<and>
     map_of (columns df) ''Number of products sold'' = Some (NumCol sold) \<and>
     map_of (columns df) ''Shipping costs'' = Some (NumCol ship) \<and>
     map_of (columns df) ''Stock levels'' = Some (NumCol stock) \<and>
     d = setitem (setitem (setitem (setitem df
       ''Profit_Margin'' (NumCol (map2 fsub revenue cost)))
       ''Total_Shipping_Cost'' (NumCol (map2 fmul sold ship)))
       ''Efficiency_Ratio'' (NumCol (map2 fdiv revenue cost)))
       ''Inventory_Turnover'' (NumCol (map2 fdiv sold stock)))"
  unfolding derived_metrics_body_def
  by (auto simp: bind_r_Inr step_Inr columns_setitem)

lemma columns_set_trend:
  "map_of (columns (fst (set_trend df g))) k =
     (if k = ''Trend_Strength'' then Some (NumCol (map (random_uniform (1 / 10) 1) (stake (nrows df) (sdrop (nrows df) g))))
      else if k = ''Trend_Direction'' then Some (StrCol (map (random_choice [''Up'', ''Down'', ''Stable'']) (stake (nrows df) g)))
      else map_of (columns df) k)"
  by (simp add: set_trend_def Let_def columns_setitem nrows_setitem)

lemma index_set_trend: "index (fst (set_trend df g)) = index df"
  by (simp add: set_trend_def Let_def index_setitem)

lemma snd_set_trend: "snd (set_trend df g) = sdrop (nrows df + nrows df) g"
  by (simp add: set_trend_def Let_def nrows_setitem)

lemma columns_enriched:
  "map_of (columns (enriched df revenue cost sold ship stock lead defect)) k =
     (if k = ''Risk_Level'' then Some (CatCol (map risk_level defect))
      else if k = ''Performance_Score'' then Some (NumCol (score revenue lead defect))
      else if k = ''Inventory_Turnover'' then Some (NumCol (np_where0 (gt0 stock) (map2 fdiv sold stock)))
      else if k = ''Efficiency_Ratio'' then Some (NumCol (np_where0 (gt0 cost) (map2 fdiv revenue cost)))
      else if k = ''Total_Shipping_Cost'' then Some (NumCol (map2 fmul sold ship))
      else if k = ''Profit_Margin'' then Some (NumCol (map2 fsub revenue cost))
      else map_of (columns df) k)"
  by (simp add: enriched_def columns_setitem)

lemma index_enriched: "index (enriched df revenue cost sold ship stock lead defect) = index df"
  by (simp add: enriched_def index_setitem)

lemma risk_level_Fin:
  "risk_level (Fin x) =
     (if x \<le> 0 then None else if x \<le> 1 then Some ''Low'' else if x \<le> 3 then Some ''Medium''
      else if x \<le> 5 then Some ''High'' else Some ''Critical'')"
  by (simp add: risk_level_def risk_bins_def risk_labels_def)

lemmas eval_defs =
  advanced_metrics_body_def derived_metrics_body_def set_profit_margin_def
  set_total_shipping_cost_def set_efficiency_ratio_plain_def set_inventory_turnover_plain_def
  set_efficiency_ratio_def set_inventory_turnover_def set_performance_score_def
  set_risk_level_def set_trend_def bind_r_def getitem_def setitem_def arith2_def numeric_def
  fsub_def np_where0_def gt0_def over_max_def series_max_def fmax2_def revenue_term_def
  penalty_term_def score_sum_def risk_level_def risk_bins_def risk_labels_def nrows_def
  random_choice_def random_uniform_def

subsection \<open>Risk levels\<close>

text \<open>
  Claim C1, as stated, fails on the code: \<open>pd.cut\<close> is called with its defaults, so the
  buckets are closed on the right. On a batch whose defect rates are exactly 1, 3 and
  5, \<open>calculate_advanced_metrics\<close> assigns Low, Medium and High, not Medium, High and
  Critical.
\<close>

theorem risk_level_boundaries_counterexample:
  "column_of ''Risk_Level'' (map_sum id fst (advanced_metrics_body boundary_batch (sconst 0))) =
     Some (CatCol [Some ''Low'', Some ''Medium'', Some ''High'']) \<and>
   column_of ''Risk_Level'' (map_sum id fst (advanced_metrics_body boundary_batch (sconst 0))) \<noteq>
     Some (CatCol [Some ''Medium'', Some ''High'', Some ''Critical''])"
  by (simp add: boundary_batch_def eval_defs column_of_def)

text \<open>
  Claim C1, amended: for every row with a positive defect rate \<open>x\<close>, \<open>Risk_Level\<close> is
  assigned by buckets open on the left and closed on the right: \<open>(0, 1]\<close> is Low,
  \<open>(1, 3]\<close> is Medium, \<open>(3, 5]\<close> is High and everything above 5 is Critical. In particular
  exactly 1.0 is Low, exactly 3.0 is Medium and exactly 5.0 is High.
\<close>

theorem risk_level_buckets:
  assumes "advanced_metrics_body df g = Inr dg"
    and "map_of (columns df) ''Defect rates'' = Some (NumCol xs)"
    and "i < length xs" and "xs ! i = Fin x" and "0 < x"
  shows "\<exists>ys. map_of (columns (fst dg)) ''Risk_Level'' = Some (CatCol ys) \<and>
     length ys = length xs \<and>
     ys ! i = Some (if x \<le> 1 then ''Low'' else if x \<le> 3 then ''Medium''
                    else if x \<le> 5 then ''High'' else ''Critical'')"
  using assms
  by (auto simp: advanced_body_Inr columns_set_trend columns_enriched risk_level_Fin)

theorem risk_level_buckets_witness:
  "map_of (columns boundary_batch) ''Defect rates'' = Some (NumCol [Fin 1, Fin 3, Fin 5]) \<and>
   (\<exists>dg ys. advanced_metrics_body boundary_batch (sconst 0) = Inr dg \<and>
      map_of (columns (fst dg)) ''Risk_Level'' = Some (CatCol ys) \<and> ys ! 1 = Some ''Medium'')"
proof -
  have c: "map_of (columns boundary_batch) ''Defect rates'' = Some (NumCol [Fin 1, Fin 3, Fin 5])"
    by (simp add: boundary_batch_def)
  obtain dg where b: "advanced_metrics_body boundary_batch (sconst 0) = Inr dg"
    by (simp add: boundary_batch_def eval_defs)
  from risk_level_buckets [OF b c, of 1 3] c b show ?thesis
    by auto
qed

subsection \<open>Ratios and zero denominators\<close>

text \<open>
  Claim C2 at a failing input. \<open>calculate_derived_metrics\<close> divides without a guard: on
  a row with manufacturing cost 0 and stock level 0, \<open>Efficiency_Ratio\<close> and
  \<open>Inventory_Turnover\<close> are infinite when the numerator is positive and NaN when it is 0
  as well, not 0.
\<close>

theorem derived_metrics_zero_denominator:
  "column_of ''Manufacturing costs'' (derived_metrics_body zero_cost_batch) =
     Some (NumCol [Fin 0, Fin 0]) \<and>
   column_of ''Efficiency_Ratio'' (derived_metrics_body zero_cost_batch) =
     Some (NumCol [PInf, NaN]) \<and>
   column_of ''Stock levels'' (derived_metrics_body zero_cost_batch) =
     Some (NumCol [Fin 0, Fin 0]) \<and>
   column_of ''Inventory_Turnover'' (derived_metrics_body zero_cost_batch) =
     Some (NumCol [PInf, NaN])"
  by (simp add: zero_cost_batch_def eval_defs column_of_def)

text \<open>
  The sibling \<open>calculate_advanced_metrics\<close> does what claim C2 says: in every row whose
  manufacturing cost is 0 the efficiency ratio is 0, and in every row whose stock level
  is 0 the inventory turnover is 0, whatever the other rows hold.
\<close>

lemma advanced_zero_denominator:
  assumes "advanced_metrics_body df g = Inr dg" and "wf_frame df"
    and "map_of (columns df) ''Manufacturing costs'' = Some (NumCol cost)"
    and "map_of (columns df) ''Stock levels'' = Some (NumCol stock)"
    and "i < nrows df"
  shows "\<exists>e t. map_of (columns (fst dg)) ''Efficiency_Ratio'' = Some (NumCol e) \<and>
           map_of (columns (fst dg)) ''Inventory_Turnover'' = Some (NumCol t) \<and>
           length e = nrows df \<and> length t = nrows df \<and>
           (cost ! i = Fin 0 \<longrightarrow> e ! i = Fin 0) \<and> (stock ! i = Fin 0 \<longrightarrow> t ! i = Fin 0)"
proof -
  have len: "\<And>k c. map_of (columns df) k = Some c \<Longrightarrow> col_len c = nrows df"
    using assms(2) by (auto simp: wf_frame_def list_all_iff dest!: map_of_SomeD)
  from assms(1) obtain revenue cost' sold ship stock' lead defect where
    r: "map_of (columns df) ''Revenue generated'' = Some (NumCol revenue)"
    and c: "map_of (columns df) ''Manufacturing costs'' = Some (NumCol cost')"
    and s: "map_of (columns df) ''Number of products sold'' = Some (NumCol sold)"
    and k: "map_of (columns df) ''Stock levels'' = Some (NumCol stock')"
    and d: "dg = set_trend (enriched df revenue cost' sold ship stock' lead defect) g"
    unfolding advanced_body_Inr by blast
  from c k assms(3,4) have [simp]: "cost' = cost" "stock' = stock" by simp_all
  from len[OF r] len[OF c] len[OF s] len[OF k]
  have l: "length revenue = nrows df" "length cost = nrows df" "length sold = nrows df"
    "length stock = nrows df"
    by simp_all
  show ?thesis
    using l assms(5) by (simp add: d columns_set_trend columns_enriched np_where0_def gt0_def)
qed

subsection \<open>The performance score\<close>

text \<open>
  Claim C4 at a failing input. The score divides by the three maxima without a guard:
  on a batch whose revenue is 0 in every row the maximum is 0, the term
  \<open>revenue / max(revenue)\<close> is \<open>0 / 0\<close>, and \<open>Performance_Score\<close> is NaN in every row.
\<close>

theorem performance_score_zero_max:
  "column_of ''Revenue generated''
     (map_sum id fst (advanced_metrics_body zero_revenue_batch (sconst 0))) =
     Some (NumCol [Fin 0, Fin 0]) \<and>
   over_max (NumCol [Fin 0, Fin 0]) (NumCol [Fin 0, Fin 0]) = Inr [NaN, NaN] \<and>
   column_of ''Performance_Score''
     (map_sum id fst (advanced_metrics_body zero_revenue_batch (sconst 0))) =
     Some (NumCol [NaN, NaN])"
  by (simp add: zero_revenue_batch_def eval_defs column_of_def)

subsection \<open>The order of the grouped summaries\<close>

lemma sample_batch_enriched:
  "advanced_metrics_body sample_batch (sconst 0) = Inr (sample_enriched, sconst 0)"
  by (simp add: sample_batch_def sample_enriched_def eval_defs)








subsection \<open>Rescaling a column\<close>













subsection \<open>Rows without a risk level\<close>

lemma keep_Nil [simp]: "keep bs [] = []" "keep [] xs = []"
  by (simp_all add: keep_def)

lemma keep_Cons [simp]: "keep (b # bs) (x # xs) = (if b then x # keep bs xs else keep bs xs)"
  by (simp add: keep_def)

lemma keep_zip: "keep bs (zip xs ys) = zip (keep bs xs) (keep bs ys)"
proof (induction bs arbitrary: xs ys)
  case Nil
  then show ?case by simp
next
  case (Cons b bs)
  show ?case
  proof (cases xs)
    case Nil
    then show ?thesis by simp
  next
    case xs: (Cons x xs')
    show ?thesis
    proof (cases ys)
      case Nil
      then show ?thesis by simp
    next
      case (Cons y ys')
      with xs Cons.IH [of xs' ys'] show ?thesis by simp
    qed
  qed
qed

lemma set_keep_subset: "set (keep bs xs) \<subseteq> set xs"
  by (auto simp: keep_def dest: set_zip_rightD)

lemma in_set_keepD:
  assumes "x \<in> set (keep bs xs)"
  shows "\<exists>j. j < length xs \<and> j < length bs \<and> bs ! j \<and> xs ! j = x"
  using assms by (auto simp: keep_def in_set_zip)

lemma cells_col_keep: "cells (col_keep bs c) = keep bs (cells c)"
  by (cases c) (simp_all add: keep_def zip_map2 filter_map comp_def case_prod_beta)

lemma columns_select_rows:
  "map_of (columns (select_rows bs f)) k = map_option (col_keep bs) (map_of (columns f) k)"
proof -
  have "map_of (map (\<lambda>kc. (fst kc, col_keep bs (snd kc))) al) k = map_option (col_keep bs) (map_of al k)" for al
    by (induction al) auto
  then show ?thesis by (simp add: select_rows_def)
qed

lemma index_select_rows: "index (select_rows bs f) = keep bs (index f)"
  by (simp add: select_rows_def)

lemma labelled_select_rows: "labelled (select_rows bs f) k = keep bs (labelled f k)"
  by (simp add: labelled_def columns_select_rows index_select_rows cells_col_keep keep_zip
      split: option.splits)

lemma labelled_select_rows_subset: "set (labelled (select_rows bs f) k) \<subseteq> set (labelled f k)"
  by (simp add: labelled_select_rows set_keep_subset)

lemma filter_product_type_labelled:
  "filter_product_type s f = Inr f' \<Longrightarrow> set (labelled f' k) \<subseteq> set (labelled f k)"
  using labelled_select_rows_subset
  by (auto simp: filter_product_type_def bind_r_Inr split: if_splits)

lemma filter_location_labelled:
  "filter_location s f = Inr f' \<Longrightarrow> set (labelled f' k) \<subseteq> set (labelled f k)"
  using labelled_select_rows_subset
  by (auto simp: filter_location_def bind_r_Inr split: if_splits)

lemma filter_revenue_range_labelled:
  "filter_revenue_range s f = Inr f' \<Longrightarrow> set (labelled f' k) \<subseteq> set (labelled f k)"
  using labelled_select_rows_subset
  by (auto simp: filter_revenue_range_def bind_r_Inr split: option.splits prod.splits)

lemma filter_lead_time_labelled:
  "filter_lead_time s f = Inr f' \<Longrightarrow> set (labelled f' k) \<subseteq> set (labelled f k)"
  using labelled_select_rows_subset
  by (auto simp: filter_lead_time_def bind_r_Inr split: option.splits)

lemma isin_nth:
  assumes "j < length (isin c levels)" and "isin c levels ! j"
  shows "j < length (cells c) \<and> cells c ! j \<noteq> CatCell None"
  using assms by (cases c) (auto split: option.splits)

lemma filter_risk_level_index:
  assumes "filter_risk_level s f = Inr out" and "risk_levels s = Some levels" and "levels \<noteq> []"
    and "l \<in> set (index out)"
  shows "\<exists>v. (l, v) \<in> set (labelled f ''Risk_Level'') \<and> v \<noteq> CatCell None"
proof -
  from assms(1-3) obtain c where c: "map_of (columns f) ''Risk_Level'' = Some c"
    and out: "out = select_rows (isin c levels) f"
    by (auto simp: filter_risk_level_def bind_r_Inr getitem_Inr)
  from assms(4) out have "l \<in> set (keep (isin c levels) (index f))"
    by (simp add: index_select_rows)
  then obtain j where j: "j < length (index f)" "j < length (isin c levels)" "isin c levels ! j"
    "index f ! j = l"
    by (auto dest: in_set_keepD)
  from isin_nth [OF j(2,3)] have v: "j < length (cells c)" "cells c ! j \<noteq> CatCell None"
    by simp_all
  from j(1,4) v(1) have "(l, cells c ! j) \<in> set (zip (index f) (cells c))"
    by (auto simp: in_set_zip)
  with c v(2) show ?thesis
    by (auto simp: labelled_def)
qed

text \<open>
  Claim C10: in the batch \<open>calculate_advanced_metrics\<close> returns, a row whose defect rate
  is exactly 0 has no risk level at all (the cell is null, not Low), and whenever
  \<open>apply_filters\<close> returns under a session state whose risk-level selection lists all
  four bucket names, the label of that row is not among the rows of the filtered batch.
\<close>

theorem zero_defect_row_dropped:
  assumes "wf_frame df" and "distinct (index df)"
    and "advanced_metrics_body df g = Inr dg"
    and "map_of (columns df) ''Defect rates'' = Some (NumCol xs)"
    and "i < nrows df" and "xs ! i = Fin 0"
    and "risk_levels s = Some levels" and "set risk_labels \<subseteq> set levels"
    and "apply_filters s (fst dg) = Inr out"
  shows "(\<exists>ys. map_of (columns (fst dg)) ''Risk_Level'' = Some (CatCol ys) \<and> ys ! i = None) \<and>
         index (fst dg) ! i = index df ! i \<and> index df ! i \<notin> set (index out)"
proof -
  have len: "length xs = nrows df"
    using assms(1,4) by (auto simp: wf_frame_def list_all_iff dest!: map_of_SomeD)
  from assms(3,4) obtain revenue cost sold ship stock lead where
    dg: "dg = set_trend (enriched df revenue cost sold ship stock lead xs) g"
    unfolding advanced_body_Inr by auto
  have risk: "map_of (columns (fst dg)) ''Risk_Level'' = Some (CatCol (map risk_level xs))"
    by (simp add: dg columns_set_trend columns_enriched)
  have idx: "index (fst dg) = index df"
    by (simp add: dg index_set_trend index_enriched)
  have lab: "labelled (fst dg) ''Risk_Level'' = zip (index df) (map (\<lambda>x. CatCell (risk_level x)) xs)"
    by (simp add: labelled_def risk idx comp_def)
  have none: "map risk_level xs ! i = None"
    using assms(5,6) len by (simp add: risk_level_Fin)
  have "index df ! i \<notin> set (index out)"
  proof
    assume mem: "index df ! i \<in> set (index out)"
    from assms(9) obtain f1 f2 f3 f4 where
      f: "filter_product_type s (fst dg) = Inr f1" "filter_location s f1 = Inr f2"
        "filter_revenue_range s f2 = Inr f3" "filter_lead_time s f3 = Inr f4"
        "filter_risk_level s f4 = Inr out"
      by (auto simp: apply_filters_def bind_r_Inr)
    from assms(8) have ne: "levels \<noteq> []"
      by (auto simp: risk_labels_def)
    from filter_risk_level_index [OF f(5) assms(7) ne mem] obtain v where
      v: "(index df ! i, v) \<in> set (labelled f4 ''Risk_Level'')" "v \<noteq> CatCell None"
      by blast
    from filter_product_type_labelled [OF f(1)] filter_location_labelled [OF f(2)]
      filter_revenue_range_labelled [OF f(3)] filter_lead_time_labelled [OF f(4)] v(1)
    have "(index df ! i, v) \<in> set (labelled (fst dg) ''Risk_Level'')"
      by blast
    then obtain j where j: "j < length (index df)" "j < length xs" "index df ! j = index df ! i"
      "v = CatCell (risk_level (xs ! j))"
      unfolding lab by (auto simp: in_set_zip)
    from j(1,3) assms(2,5) have "j = i"
      by (simp add: nrows_def nth_eq_iff_index_eq)
    with j(4) assms(6) v(2) show False
      by (simp add: risk_level_Fin)
  qed
  with risk none idx show ?thesis by simp
qed

lemmas filter_defs =
  apply_filters_def filter_product_type_def filter_location_def filter_revenue_range_def
  filter_lead_time_def filter_risk_level_def select_rows_def keep_def bind_r_def getitem_def

theorem zero_defect_row_dropped_witness:
  "wf_frame sample_batch \<and> distinct (index sample_batch) \<and>
   advanced_metrics_body sample_batch (sconst 0) = Inr (sample_enriched, sconst 0) \<and>
   column_of ''Defect rates'' (Inr sample_batch) = Some (NumCol [Fin 0, Fin 1]) \<and>
   column_of ''Risk_Level'' (Inr sample_enriched) = Some (CatCol [None, Some ''Low'']) \<and>
   risk_levels sample_state = Some [''Low'', ''Medium'', ''High'', ''Critical''] \<and>
   map_sum id index (apply_filters sample_state sample_enriched) = Inr [1] \<and>
   index sample_batch ! 0 \<notin> set [1]"
proof -
  have w: "wf_frame sample_batch" and d: "distinct (index sample_batch)"
    by (simp_all add: wf_frame_def sample_batch_def nrows_def)
  have c: "map_of (columns sample_batch) ''Defect rates'' = Some (NumCol [Fin 0, Fin 1])"
    by (simp add: sample_batch_def)
  have n: "0 < nrows sample_batch" and z: "[Fin 0, Fin 1] ! 0 = Fin 0"
    by (simp_all add: sample_batch_def nrows_def)
  have r: "risk_levels sample_state = Some [''Low'', ''Medium'', ''High'', ''Critical'']"
    and l: "set risk_labels \<subseteq> set [''Low'', ''Medium'', ''High'', ''Critical'']"
    by (simp_all add: sample_state_def risk_labels_def)
  obtain out where a: "apply_filters sample_state (fst (sample_enriched, sconst (0::real))) = Inr out"
    and i: "index out = [1]"
    by (simp add: filter_defs sample_state_def sample_enriched_def)
  from zero_defect_row_dropped [OF w d sample_batch_enriched c n z r l a] i
  have "index sample_batch ! 0 \<notin> set [1]"
    by simp
  with w d c r a i sample_batch_enriched show ?thesis
    by (simp add: column_of_def sample_enriched_def)
qed

subsection \<open>Rows and objects\<close>

lemma calculate_derived_metrics_Inr:
  "calculate_derived_metrics h r = Inr (r', h') \<longleftrightarrow>
     (\<exists>d. derived_metrics_body (objs h r) = Inr d \<and> r' = next_ref h \<and>
          h' = \<lparr>objs = (objs h)(next_ref h := d), next_ref = Suc (next_ref h)\<rparr>)"
  by (auto simp: calculate_derived_metrics_def copy_def store_frame_def bind_r_Inr)

lemma calculate_advanced_metrics_Inr:
  "calculate_advanced_metrics h r g = Inr (r', h', g') \<longleftrightarrow>
     (\<exists>d. advanced_metrics_body (objs h r) g = Inr (d, g') \<and> r' = next_ref h \<and>
          h' = \<lparr>objs = (objs h)(next_ref h := d), next_ref = Suc (next_ref h)\<rparr>)"
  by (auto simp: calculate_advanced_metrics_def copy_def store_frame_def bind_r_Inr)

lemma wf_frame_lookup: "wf_frame df \<Longrightarrow> map_of (columns df) k = Some c \<Longrightarrow> col_len c = nrows df"
  by (auto simp: wf_frame_def list_all_iff dest!: map_of_SomeD)

lemma set_update_cases: "kc \<in> set (AList.update k v al) \<Longrightarrow> kc = (k, v) \<or> kc \<in> set al"
  by (induction al) (auto split: if_splits)

lemma wf_frame_setitem:
  "wf_frame df \<Longrightarrow> col_len c = nrows df \<Longrightarrow> wf_frame (setitem df k c)"
  by (auto simp: wf_frame_def list_all_iff setitem_def nrows_def dest!: set_update_cases)

lemma length_score:
  "length r = n \<Longrightarrow> length l = n \<Longrightarrow> length x = n \<Longrightarrow> length (score r l x) = n"
  by (simp add: score_def score_sum_def revenue_term_def penalty_term_def)

lemma wf_frame_enriched:
  assumes "wf_frame df"
    and "length revenue = nrows df" "length cost = nrows df" "length sold = nrows df"
    and "length ship = nrows df" "length stock = nrows df" "length lead = nrows df"
    and "length defect = nrows df"
  shows "wf_frame (enriched df revenue cost sold ship stock lead defect)"
  unfolding enriched_def using assms
  by (intro wf_frame_setitem) (simp_all add: nrows_setitem np_where0_def gt0_def length_score)

lemma wf_frame_set_trend: "wf_frame df \<Longrightarrow> wf_frame (fst (set_trend df g))"
  unfolding set_trend_def Let_def fst_conv
  by (intro wf_frame_setitem) (simp_all add: nrows_setitem)

lemma advanced_body_rows:
  assumes "advanced_metrics_body df g = Inr dg"
  shows "index (fst dg) = index df" and "wf_frame df \<Longrightarrow> wf_frame (fst dg)"
proof -
  from assms obtain revenue cost sold ship stock lead defect where
    cols: "map_of (columns df) ''Revenue generated'' = Some (NumCol revenue)"
      "map_of (columns df) ''Manufacturing costs'' = Some (NumCol cost)"
      "map_of (columns df) ''Number of products sold'' = Some (NumCol sold)"
      "map_of (columns df) ''Shipping costs'' = Some (NumCol ship)"
      "map_of (columns df) ''Stock levels'' = Some (NumCol stock)"
      "map_of (columns df) ''Lead times'' = Some (NumCol lead)"
      "map_of (columns df) ''Defect rates'' = Some (NumCol defect)"
    and dg: "dg = set_trend (enriched df revenue cost sold ship stock lead defect) g"
    unfolding advanced_body_Inr by blast
  show "index (fst dg) = index df"
    by (simp add: dg index_set_trend index_enriched)
  assume w: "wf_frame df"
  from cols [THEN wf_frame_lookup [OF w]]
  have "wf_frame (enriched df revenue cost sold ship stock lead defect)"
    by (intro wf_frame_enriched [OF w]) simp_all
  then show "wf_frame (fst dg)"
    unfolding dg by (rule wf_frame_set_trend)
qed

lemma derived_body_rows:
  assumes "derived_metrics_body df = Inr d"
  shows "index d = index df" and "wf_frame df \<Longrightarrow> wf_frame d"
proof -
  from assms obtain revenue cost sold ship stock where
    cols: "map_of (columns df) ''Revenue generated'' = Some (NumCol revenue)"
      "map_of (columns df) ''Manufacturing costs'' = Some (NumCol cost)"
      "map_of (columns df) ''Number of products sold'' = Some (NumCol sold)"
      "map_of (columns df) ''Shipping costs'' = Some (NumCol ship)"
      "map_of (columns df) ''Stock levels'' = Some (NumCol stock)"
    and d: "d = setitem (setitem (setitem (setitem df
       ''Profit_Margin'' (NumCol (map2 fsub revenue cost)))
       ''Total_Shipping_Cost'' (NumCol (map2 fmul sold ship)))
       ''Efficiency_Ratio'' (NumCol (map2 fdiv revenue cost)))
       ''Inventory_Turnover'' (NumCol (map2 fdiv sold stock))"
    unfolding derived_body_Inr by blast
  show "index d = index df"
    by (simp add: d index_setitem)
  assume w: "wf_frame df"
  from cols [THEN wf_frame_lookup [OF w]]
  show "wf_frame d"
    unfolding d by (intro wf_frame_setitem w) (simp_all add: nrows_setitem)
qed

lemma sample_store_derived:
  "\<exists>h1. calculate_derived_metrics sample_store 0 = Inr (1, h1)"
  by (simp add: calculate_derived_metrics_Inr derived_body_Inr sample_store_def sample_batch_def)

lemma sample_store_advanced:
  "\<exists>h2. calculate_advanced_metrics sample_store 0 (sconst 0) = Inr (1, h2, sconst 0)"
  using sample_batch_enriched
  by (simp add: calculate_advanced_metrics_Inr sample_store_def)

text \<open>
  Claim C8: for every batch, each enrichment function that returns gives exactly one
  output row per input row, in the order of the input rows: the frame it returns has
  the row labels of the input frame, in the same order, and every column of it, the
  derived ones included, has one cell per row.
\<close>

theorem enrichment_preserves_rows:
  assumes "wf_frame (objs h df)"
  shows "(calculate_derived_metrics h df = Inr (r1, h1) \<longrightarrow>
            index (objs h1 r1) = index (objs h df) \<and> nrows (objs h1 r1) = nrows (objs h df) \<and>
            wf_frame (objs h1 r1)) \<and>
         (calculate_advanced_metrics h df g = Inr (r2, h2, g2) \<longrightarrow>
            index (objs h2 r2) = index (objs h df) \<and> nrows (objs h2 r2) = nrows (objs h df) \<and>
            wf_frame (objs h2 r2))"
proof (intro conjI impI)
  assume "calculate_derived_metrics h df = Inr (r1, h1)"
  then obtain d where d: "derived_metrics_body (objs h df) = Inr d" and o: "objs h1 r1 = d"
    unfolding calculate_derived_metrics_Inr by auto
  from derived_body_rows [OF d] assms o
  show "index (objs h1 r1) = index (objs h df)" "nrows (objs h1 r1) = nrows (objs h df)"
    "wf_frame (objs h1 r1)"
    by (simp_all add: nrows_def)
next
  assume "calculate_advanced_metrics h df g = Inr (r2, h2, g2)"
  then obtain d where d: "advanced_metrics_body (objs h df) g = Inr (d, g2)" and o: "objs h2 r2 = d"
    unfolding calculate_advanced_metrics_Inr by auto
  from advanced_body_rows [OF d] assms o
  show "index (objs h2 r2) = index (objs h df)" "nrows (objs h2 r2) = nrows (objs h df)"
    "wf_frame (objs h2 r2)"
    by (simp_all add: nrows_def)
qed

theorem enrichment_preserves_rows_witness:
  "wf_frame (objs sample_store 0) \<and>
   (\<exists>h1. calculate_derived_metrics sample_store 0 = Inr (1, h1) \<and>
      index (objs h1 1) = [0, 1] \<and> nrows (objs h1 1) = 2 \<and> wf_frame (objs h1 1)) \<and>
   (\<exists>h2. calculate_advanced_metrics sample_store 0 (sconst 0) = Inr (1, h2, sconst 0) \<and>
      index (objs h2 1) = [0, 1] \<and> nrows (objs h2 1) = 2 \<and> wf_frame (objs h2 1))"
proof -
  have w: "wf_frame (objs sample_store 0)"
    by (simp add: sample_store_def sample_batch_def wf_frame_def nrows_def)
  have i: "index (objs sample_store 0) = [0, 1]" "nrows (objs sample_store 0) = 2"
    by (simp_all add: sample_store_def sample_batch_def nrows_def)
  from sample_store_derived obtain h1 where
    a: "calculate_derived_metrics sample_store 0 = Inr (1, h1)" by blast
  from sample_store_advanced obtain h2 where
    b: "calculate_advanced_metrics sample_store 0 (sconst 0) = Inr (1, h2, sconst 0)" by blast
  note t = enrichment_preserves_rows [OF w, of 1 h1 "sconst 0" 1 h2 "sconst 0"]
  from t a have d: "index (objs h1 1) = index (objs sample_store 0) \<and>
      nrows (objs h1 1) = nrows (objs sample_store 0) \<and> wf_frame (objs h1 1)"
    by blast
  from t b have e: "index (objs h2 1) = index (objs sample_store 0) \<and>
      nrows (objs h2 1) = nrows (objs sample_store 0) \<and> wf_frame (objs h2 1)"
    by blast
  from d i have d': "index (objs h1 1) = [0, 1] \<and> nrows (objs h1 1) = 2 \<and> wf_frame (objs h1 1)"
    by simp
  from e i have e': "index (objs h2 1) = [0, 1] \<and> nrows (objs h2 1) = 2 \<and> wf_frame (objs h2 1)"
    by simp
  from w a b d' e' show ?thesis by blast
qed

lemma advanced_body_frame:
  assumes "advanced_metrics_body df g = Inr dg" and "k \<notin> set advanced_names"
  shows "map_of (columns (fst dg)) k = map_of (columns df) k"
proof -
  from assms(1) obtain revenue cost sold ship stock lead defect where
    dg: "dg = set_trend (enriched df revenue cost sold ship stock lead defect) g"
    unfolding advanced_body_Inr by blast
  from assms(2) show ?thesis
    by (simp add: dg columns_set_trend columns_enriched advanced_names_def)
qed

lemma derived_body_frame:
  assumes "derived_metrics_body df = Inr d" and "k \<notin> set derived_names"
  shows "map_of (columns d) k = map_of (columns df) k"
proof -
  from assms(1) obtain revenue cost sold ship stock where
    d: "d = setitem (setitem (setitem (setitem df
       ''Profit_Margin'' (NumCol (map2 fsub revenue cost)))
       ''Total_Shipping_Cost'' (NumCol (map2 fmul sold ship)))
       ''Efficiency_Ratio'' (NumCol (map2 fdiv revenue cost)))
       ''Inventory_Turnover'' (NumCol (map2 fdiv sold stock))"
    unfolding derived_body_Inr by blast
  from assms(2) show ?thesis
    by (simp add: d columns_setitem derived_names_def)
qed

text \<open>
  Claim C9: enrichment has no effect on its input. Each function returns a new object;
  the frame its argument refers to, and every other live frame, is what it was before
  the call; and every column of the input that holds a field of the specification's
  Row, and more generally every column that does not bear the name of a derived column,
  is in the returned frame with its cells unchanged.
\<close>

theorem enrichment_leaves_input:
  assumes "df < next_ref h"
  shows "(calculate_derived_metrics h df = Inr (r1, h1) \<longrightarrow>
            r1 \<noteq> df \<and> objs h1 df = objs h df \<and> (\<forall>p < next_ref h. objs h1 p = objs h p) \<and>
            (\<forall>k. k \<in> set row_fields \<or> k \<notin> set derived_names \<longrightarrow>
               map_of (columns (objs h1 r1)) k = map_of (columns (objs h df)) k)) \<and>
         (calculate_advanced_metrics h df g = Inr (r2, h2, g2) \<longrightarrow>
            r2 \<noteq> df \<and> objs h2 df = objs h df \<and> (\<forall>p < next_ref h. objs h2 p = objs h p) \<and>
            (\<forall>k. k \<in> set row_fields \<or> k \<notin> set advanced_names \<longrightarrow>
               map_of (columns (objs h2 r2)) k = map_of (columns (objs h df)) k))"
proof (intro conjI impI allI)
  assume c: "calculate_derived_metrics h df = Inr (r1, h1)"
  then obtain d where d: "derived_metrics_body (objs h df) = Inr d" and r: "r1 = next_ref h"
    and h1: "h1 = \<lparr>objs = (objs h)(next_ref h := d), next_ref = Suc (next_ref h)\<rparr>"
    unfolding calculate_derived_metrics_Inr by auto
  from r assms show "r1 \<noteq> df" by simp
  from assms show "objs h1 df = objs h df" by (simp add: h1)
  show "objs h1 p = objs h p" if "p < next_ref h" for p
    using that by (simp add: h1)
  show "map_of (columns (objs h1 r1)) k = map_of (columns (objs h df)) k"
    if "k \<in> set row_fields \<or> k \<notin> set derived_names" for k
  proof -
    from that have "k \<notin> set derived_names"
      by (auto simp: row_fields_def derived_names_def)
    from derived_body_frame [OF d this] show ?thesis by (simp add: h1 r)
  qed
next
  assume c: "calculate_advanced_metrics h df g = Inr (r2, h2, g2)"
  then obtain d where d: "advanced_metrics_body (objs h df) g = Inr (d, g2)" and r: "r2 = next_ref h"
    and h2: "h2 = \<lparr>objs = (objs h)(next_ref h := d), next_ref = Suc (next_ref h)\<rparr>"
    unfolding calculate_advanced_metrics_Inr by auto
  from r assms show "r2 \<noteq> df" by simp
  from assms show "objs h2 df = objs h df" by (simp add: h2)
  show "objs h2 p = objs h p" if "p < next_ref h" for p
    using that by (simp add: h2)
  show "map_of (columns (objs h2 r2)) k = map_of (columns (objs h df)) k"
    if "k \<in> set row_fields \<or> k \<notin> set advanced_names" for k
  proof -
    from that have "k \<notin> set advanced_names"
      by (auto simp: row_fields_def advanced_names_def)
    from advanced_body_frame [OF d this] show ?thesis by (simp add: h2 r)
  qed
qed

theorem enrichment_leaves_input_witness:
  "0 < next_ref sample_store \<and>
   (\<exists>h1. calculate_derived_metrics sample_store 0 = Inr (1, h1) \<and>
      objs h1 0 = sample_batch \<and>
      map_of (columns (objs h1 1)) ''Revenue generated'' = Some (NumCol [Fin 100, Fin 200])) \<and>
   (\<exists>h2. calculate_advanced_metrics sample_store 0 (sconst 0) = Inr (1, h2, sconst 0) \<and>
      objs h2 0 = sample_batch \<and>
      map_of (columns (objs h2 1)) ''Product type'' = Some (StrCol [''skincare'', ''haircare'']))"
proof -
  have n: "0 < next_ref sample_store"
    by (simp add: sample_store_def)
  have c: "objs sample_store 0 = sample_batch"
    "map_of (columns sample_batch) ''Revenue generated'' = Some (NumCol [Fin 100, Fin 200])"
    "map_of (columns sample_batch) ''Product type'' = Some (StrCol [''skincare'', ''haircare''])"
    "''Revenue generated'' \<in> set row_fields" "''Product type'' \<in> set row_fields"
    by (simp_all add: sample_store_def sample_batch_def row_fields_def)
  from sample_store_derived obtain h1 where
    a: "calculate_derived_metrics sample_store 0 = Inr (1, h1)" by blast
  from sample_store_advanced obtain h2 where
    b: "calculate_advanced_metrics sample_store 0 (sconst 0) = Inr (1, h2, sconst 0)" by blast
  note t = enrichment_leaves_input [OF n, of 1 h1 "sconst 0" 1 h2 "sconst 0"]
  from t a c(4) have d: "objs h1 0 = objs sample_store 0 \<and>
      map_of (columns (objs h1 1)) ''Revenue generated'' =
      map_of (columns (objs sample_store 0)) ''Revenue generated''"
    by blast
  from t b c(5) have e: "objs h2 0 = objs sample_store 0 \<and>
      map_of (columns (objs h2 1)) ''Product type'' =
      map_of (columns (objs sample_store 0)) ''Product type''"
    by blast
  from d c(1,2) have d': "objs h1 0 = sample_batch \<and>
      map_of (columns (objs h1 1)) ''Revenue generated'' = Some (NumCol [Fin 100, Fin 200])"
    by simp
  from e c(1,3) have e': "objs h2 0 = sample_batch \<and>
      map_of (columns (objs h2 1)) ''Product type'' = Some (StrCol [''skincare'', ''haircare''])"
    by simp
  from n a b d' e' show ?thesis by blast
qed

subsection \<open>Missing columns\<close>

lemmas body_defs =
  advanced_metrics_body_def derived_metrics_body_def set_profit_margin_def
  set_total_shipping_cost_def set_efficiency_ratio_plain_def set_inventory_turnover_plain_def
  set_efficiency_ratio_def set_inventory_turnover_def set_performance_score_def
  set_risk_level_def bind_r_def getitem_def setitem_def arith2_def numeric_def over_max_def

lemma numeric_if_present_Cons:
  "numeric_if_present df (k # ks) \<longleftrightarrow>
     (absent df k \<or> (\<exists>xs. map_of (columns df) k = Some (NumCol xs))) \<and> numeric_if_present df ks"
  by (auto simp: absent_def split: option.splits column.splits)

lemma find_Cons_Some:
  "find P (x # xs) = Some k \<longleftrightarrow> (P x \<and> k = x) \<or> (\<not> P x \<and> find P xs = Some k)"
  by auto

lemma derived_body_KeyError:
  assumes "numeric_if_present df derived_reads" and "find (absent df) derived_reads = Some k"
  shows "derived_metrics_body df = Inl (KeyError k)"
  using assms unfolding derived_reads_def numeric_if_present_Cons find_Cons_Some
  apply (elim conjE disjE exE)
  apply (simp_all add: absent_def)
  apply (simp_all add: body_defs update_conv')
  done

lemma advanced_body_KeyError:
  assumes "numeric_if_present df advanced_reads" and "find (absent df) advanced_reads = Some k"
  shows "advanced_metrics_body df g = Inl (KeyError k)"
  using assms unfolding advanced_reads_def numeric_if_present_Cons find_Cons_Some
  apply (elim conjE disjE exE)
  apply (simp_all add: absent_def)
  apply (simp_all add: body_defs update_conv')
  done

lemma bind_r_Inl: "bind_r m f = Inl e \<longleftrightarrow> m = Inl e \<or> (\<exists>x. m = Inr x \<and> f x = Inl e)"
  by (cases m) (simp_all add: bind_r_def)

lemma getitem_Inl: "getitem df k = Inl e \<Longrightarrow> e \<noteq> SchemaError"
  by (auto simp: getitem_def split: option.splits)

lemma arith2_Inl: "arith2 f c1 c2 = Inl e \<Longrightarrow> e \<noteq> SchemaError"
  by (auto simp: arith2_def split: column.splits)

lemma numeric_Inl: "numeric c = Inl e \<Longrightarrow> e \<noteq> SchemaError"
  by (auto simp: numeric_def split: column.splits)

lemma over_max_Inl: "over_max c c' = Inl e \<Longrightarrow> e \<noteq> SchemaError"
  by (auto simp: over_max_def bind_r_Inl dest: numeric_Inl)

lemma step_Inl:
  "set_profit_margin df = Inl e \<Longrightarrow> e \<noteq> SchemaError"
  "set_total_shipping_cost df = Inl e \<Longrightarrow> e \<noteq> SchemaError"
  "set_efficiency_ratio_plain df = Inl e \<Longrightarrow> e \<noteq> SchemaError"
  "set_inventory_turnover_plain df = Inl e \<Longrightarrow> e \<noteq> SchemaError"
  "set_efficiency_ratio df = Inl e \<Longrightarrow> e \<noteq> SchemaError"
  "set_inventory_turnover df = Inl e \<Longrightarrow> e \<noteq> SchemaError"
  "set_performance_score df = Inl e \<Longrightarrow> e \<noteq> SchemaError"
  "set_risk_level df = Inl e \<Longrightarrow> e \<noteq> SchemaError"
  unfolding set_profit_margin_def set_total_shipping_cost_def set_efficiency_ratio_plain_def
    set_inventory_turnover_plain_def set_efficiency_ratio_def set_inventory_turnover_def
    set_performance_score_def set_risk_level_def
  by (auto simp: bind_r_Inl dest: getitem_Inl arith2_Inl numeric_Inl over_max_Inl)

lemma derived_body_Inl: "derived_metrics_body df = Inl e \<Longrightarrow> e \<noteq> SchemaError"
  unfolding derived_metrics_body_def
  by (auto simp: bind_r_Inl dest: step_Inl)

lemma advanced_body_Inl: "advanced_metrics_body df g = Inl e \<Longrightarrow> e \<noteq> SchemaError"
  unfolding advanced_metrics_body_def
  by (auto simp: bind_r_Inl dest: step_Inl)

lemma derived_body_absent:
  assumes "k \<in> set derived_reads" and "absent df k"
  shows "\<exists>e. derived_metrics_body df = Inl e \<and> e \<noteq> SchemaError"
proof (cases "derived_metrics_body df")
  case (Inl e)
  with derived_body_Inl show ?thesis by blast
next
  case (Inr d)
  with assms show ?thesis
    unfolding derived_body_Inr by (auto simp: derived_reads_def absent_def)
qed

lemma advanced_body_absent:
  assumes "k \<in> set advanced_reads" and "absent df k"
  shows "\<exists>e. advanced_metrics_body df g = Inl e \<and> e \<noteq> SchemaError"
proof (cases "advanced_metrics_body df g")
  case (Inl e)
  with advanced_body_Inl show ?thesis by blast
next
  case (Inr d)
  with assms show ?thesis
    unfolding advanced_body_Inr by (auto simp: advanced_reads_def absent_def)
qed

lemma calculate_derived_metrics_Inl:
  "calculate_derived_metrics h r = Inl e \<longleftrightarrow> derived_metrics_body (objs h r) = Inl e"
  by (auto simp: calculate_derived_metrics_def copy_def store_frame_def bind_r_Inl)

lemma calculate_advanced_metrics_Inl:
  "calculate_advanced_metrics h r g = Inl e \<longleftrightarrow> advanced_metrics_body (objs h r) g = Inl e"
  by (auto simp: calculate_advanced_metrics_def copy_def store_frame_def bind_r_Inl)

text \<open>
  Claim C6, as stated, fails on the code: the source defines and raises no
  \<open>SchemaError\<close>. On a batch without the column \<open>Revenue generated\<close> both enrichment
  functions fail with the \<open>KeyError\<close> of the first \<open>df[name]\<close> they evaluate.
\<close>

theorem schema_error_counterexample:
  "absent (objs no_revenue_store 0) ''Revenue generated'' \<and>
   calculate_derived_metrics no_revenue_store 0 = Inl (KeyError ''Revenue generated'') \<and>
   calculate_derived_metrics no_revenue_store 0 \<noteq> Inl SchemaError \<and>
   calculate_advanced_metrics no_revenue_store 0 (sconst 0) = Inl (KeyError ''Revenue generated'') \<and>
   calculate_advanced_metrics no_revenue_store 0 (sconst 0) \<noteq> Inl SchemaError"
  by (simp add: calculate_derived_metrics_Inl calculate_advanced_metrics_Inl no_revenue_store_def
      no_revenue_batch_def absent_def eval_defs)

text \<open>
  Claim C6, amended: if a column that the enrichment reads is absent from the frame, the
  enrichment raises and returns no frame, and the exception is never a \<open>SchemaError\<close>;
  when the columns it reads are numeric wherever present, the exception is pandas'
  \<open>KeyError\<close> for the first absent column in the order the function reads them.
\<close>

theorem missing_column_raises_KeyError:
  "(k \<in> set derived_reads \<longrightarrow> absent (objs h df) k \<longrightarrow>
      (\<exists>e. calculate_derived_metrics h df = Inl e \<and> e \<noteq> SchemaError)) \<and>
   (numeric_if_present (objs h df) derived_reads \<longrightarrow>
      find (absent (objs h df)) derived_reads = Some k1 \<longrightarrow>
      calculate_derived_metrics h df = Inl (KeyError k1)) \<and>
   (k' \<in> set advanced_reads \<longrightarrow> absent (objs h df) k' \<longrightarrow>
      (\<exists>e. calculate_advanced_metrics h df g = Inl e \<and> e \<noteq> SchemaError)) \<and>
   (numeric_if_present (objs h df) advanced_reads \<longrightarrow>
      find (absent (objs h df)) advanced_reads = Some k2 \<longrightarrow>
      calculate_advanced_metrics h df g = Inl (KeyError k2))"
  using derived_body_absent [of k "objs h df"] advanced_body_absent [of k' "objs h df" g]
    derived_body_KeyError [of "objs h df" k1] advanced_body_KeyError [of "objs h df" k2 g]
  by (simp add: calculate_derived_metrics_Inl calculate_advanced_metrics_Inl)

theorem missing_column_raises_KeyError_witness:
  "''Revenue generated'' \<in> set derived_reads \<and> ''Revenue generated'' \<in> set advanced_reads \<and>
   absent (objs no_revenue_store 0) ''Revenue generated'' \<and>
   numeric_if_present (objs no_revenue_store 0) derived_reads \<and>
   numeric_if_present (objs no_revenue_store 0) advanced_reads \<and>
   find (absent (objs no_revenue_store 0)) derived_reads = Some ''Revenue generated'' \<and>
   find (absent (objs no_revenue_store 0)) advanced_reads = Some ''Revenue generated'' \<and>
   calculate_derived_metrics no_revenue_store 0 = Inl (KeyError ''Revenue generated'') \<and>
   calculate_advanced_metrics no_revenue_store 0 (sconst 0) = Inl (KeyError ''Revenue generated'')"
proof -
  have m: "''Revenue generated'' \<in> set derived_reads" "''Revenue generated'' \<in> set advanced_reads"
    by (simp_all add: derived_reads_def advanced_reads_def)
  have a: "absent (objs no_revenue_store 0) ''Revenue generated''"
    by (simp add: no_revenue_store_def no_revenue_batch_def absent_def)
  have n: "numeric_if_present (objs no_revenue_store 0) derived_reads"
    "numeric_if_present (objs no_revenue_store 0) advanced_reads"
    by (simp_all add: no_revenue_store_def no_revenue_batch_def derived_reads_def advanced_reads_def)
  have f: "find (absent (objs no_revenue_store 0)) derived_reads = Some ''Revenue generated''"
    "find (absent (objs no_revenue_store 0)) advanced_reads = Some ''Revenue generated''"
    using a by (simp_all add: derived_reads_def advanced_reads_def)
  note t = missing_column_raises_KeyError [of "''Revenue generated''" no_revenue_store 0
      "''Revenue generated''" "''Revenue generated''" "sconst 0" "''Revenue generated''"]
  from t n(1) f(1) have d: "calculate_derived_metrics no_revenue_store 0 = Inl (KeyError ''Revenue generated'')"
    by blast
  from t n(2) f(2) have e: "calculate_advanced_metrics no_revenue_store 0 (sconst 0) = Inl (KeyError ''Revenue generated'')"
    by blast
  from m a n f d e show ?thesis by blast
qed

subsection \<open>Determinism\<close>








end
